theory Spec2Isabelle
  imports Main "HOL-Library.Word"
begin

section \<open>JavaScript values, errors and promises\<close>

text \<open>
  The sender of \<^verbatim>\<open>src/lib/sender.js\<close> receives its arguments from callers and from the
  ledger client, so they are JavaScript values of any type. Numbers are the integers
  (no fractions, no NaN), and \<open>js_String\<close> prints every one of them in full, as
  \<^verbatim>\<open>String\<close> does below 1e21; objects are association lists of their own
  properties and carry no identity.
\<close>

datatype jsval =
    JUndefined
  | JNull
  | JBool bool
  | JNum int
  | JStr string
  | JObj "(string \<times> jsval) list"

text \<open>\<^verbatim>\<open>!v\<close> is \<open>\<not> truthy v\<close>.\<close>

fun truthy :: "jsval \<Rightarrow> bool" where
  "truthy JUndefined = False"
| "truthy JNull = False"
| "truthy (JBool b) = b"
| "truthy (JNum n) = (n \<noteq> 0)"
| "truthy (JStr s) = (s \<noteq> [])"
| "truthy (JObj fs) = True"

fun typeof :: "jsval \<Rightarrow> string" where
  "typeof JUndefined = ''undefined''"
| "typeof JNull = ''object''"
| "typeof (JBool b) = ''boolean''"
| "typeof (JNum n) = ''number''"
| "typeof (JStr s) = ''string''"
| "typeof (JObj fs) = ''object''"

definition digit :: "nat \<Rightarrow> char" where
  "digit n = ''0123456789'' ! (n mod 10)"

fun decimal :: "nat \<Rightarrow> string" where
  "decimal n = (if n < 10 then [digit n] else decimal (n div 10) @ [digit n])"

text \<open>\<^verbatim>\<open>String(v)\<close>, which is also what \<^verbatim>\<open>'...' + v\<close> appends.\<close>

fun js_String :: "jsval \<Rightarrow> string" where
  "js_String JUndefined = ''undefined''"
| "js_String JNull = ''null''"
| "js_String (JBool b) = (if b then ''true'' else ''false'')"
| "js_String (JNum n) = (if n < 0 then ''-'' @ decimal (nat (- n)) else decimal (nat n))"
| "js_String (JStr s) = s"
| "js_String (JObj fs) = ''[object Object]''"

text \<open>
  \<^verbatim>\<open>v.k\<close> for a value \<open>v\<close> that is neither undefined nor null: a property the value
  does not have reads as undefined.
\<close>

fun js_prop :: "jsval \<Rightarrow> string \<Rightarrow> jsval" where
  "js_prop (JObj fs) k = (case map_of fs k of Some v \<Rightarrow> v | None \<Rightarrow> JUndefined)"
| "js_prop v k = JUndefined"

text \<open>
  \<^verbatim>\<open>a === b\<close>. Primitives are equal when they are the same value; an object is
  identical only to itself, and the two sides compared here never share an object (one
  comes from the ledger's notification, the other from the caller).
\<close>

fun strict_eq :: "jsval \<Rightarrow> jsval \<Rightarrow> bool" where
  "strict_eq (JObj fs) b = False"
| "strict_eq a (JObj gs) = False"
| "strict_eq a b = (a = b)"

text \<open>An error object, with the two properties the code reads or sets.\<close>

datatype js_error = JsError (name: string) (message: string)

text \<open>\<^verbatim>\<open>new Error(m)\<close>\<close>

definition Error :: "string \<Rightarrow> js_error" where
  "Error m = JsError ''Error'' m"

text \<open>A settled promise: \<open>Inl e\<close> is rejected with \<open>e\<close>, \<open>Inr v\<close> is resolved with \<open>v\<close>.\<close>

type_synonym 'a promise = "js_error + 'a"

section \<open>The data of the sender\<close>

text \<open>
  An instant is its number of milliseconds since the epoch, and an ISO-8601 string is
  modelled by the instant it denotes. What a request carries as its \<^verbatim>\<open>expires_at\<close>
  is such a string, or nothing, or null, or a string that denotes no instant.
\<close>

type_synonym instant = int

datatype js_date =
    DateUndefined
  | DateNull
  | DateString instant
  | DateUnparseable

text \<open>
  A \<^verbatim>\<open>moment\<close> is valid and then holds an instant, or is invalid (\<open>None\<close>). A
  JavaScript date holds at most 8.64e15 milliseconds either side of the epoch; beyond
  that it is invalid, and so is the moment around it.
\<close>

type_synonym moment = "instant option"

definition valid_date :: "instant \<Rightarrow> moment" where
  "valid_date t = (if \<bar>t\<bar> \<le> 8640000000000000 then Some t else None)"

text \<open>
  \<^verbatim>\<open>moment(v)\<close>, the clock reading \<open>t\<close>: the current time when there is no
  argument, invalid for null and for what does not parse. \<^verbatim>\<open>moment()\<close> itself is
  \<open>Some t\<close>: the clock reads a date.
\<close>

fun moment :: "instant \<Rightarrow> js_date \<Rightarrow> moment" where
  "moment t DateUndefined = Some t"
| "moment t DateNull = None"
| "moment t (DateString e) = valid_date e"
| "moment t DateUnparseable = None"

text \<open>\<^verbatim>\<open>m.add(n, 'seconds')\<close>\<close>

definition add_seconds :: "moment \<Rightarrow> int \<Rightarrow> moment" where
  "add_seconds m n = (case m of None \<Rightarrow> None | Some t \<Rightarrow> valid_date (t + n * 1000))"

text \<open>
  \<^verbatim>\<open>moment.min([a, b])\<close> starts from \<open>a\<close> and takes \<open>b\<close> when \<open>b\<close> is invalid or
  before it; nothing is before an invalid moment. So the result is invalid as soon as
  one of the two is.
\<close>

definition moment_min :: "moment \<Rightarrow> moment \<Rightarrow> moment" where
  "moment_min a b =
     (case b of
        None \<Rightarrow> None
      | Some tb \<Rightarrow> (case a of None \<Rightarrow> None | Some ta \<Rightarrow> if tb < ta then Some tb else Some ta))"

text \<open>
  \<^verbatim>\<open>m.toISOString()\<close> is null for an invalid moment. Where the string goes into a
  request it is a \<open>js_date\<close>; in the payment parameters it is the instant, \<open>None\<close>
  standing for null.
\<close>

definition toISOString :: "moment \<Rightarrow> js_date" where
  "toISOString m = (case m of None \<Rightarrow> DateNull | Some t \<Rightarrow> DateString t)"

type_synonym bytes = "8 word list"

text \<open>The argument of \<^verbatim>\<open>client.quote\<close>; a key the literal leaves out is undefined.\<close>

record quote_params =
  q_destinationAddress :: jsval
  q_sourceAmount :: jsval
  q_destinationAmount :: jsval

text \<open>The payment request that \<^verbatim>\<open>createRequest\<close> builds and \<^verbatim>\<open>quoteRequest\<close> reads.\<close>

record payment_request =
  address :: jsval
  amount :: jsval
  expires_at :: js_date
  data :: jsval
  condition :: jsval

record memo =
  memo_data :: jsval
  memo_expires_at :: js_date

text \<open>
  The object \<^verbatim>\<open>quoteRequest\<close> resolves with and \<^verbatim>\<open>payRequest\<close> takes. \<open>uuid\<close> is
  the property \<^verbatim>\<open>payRequest\<close> adds. \<open>expiresAt\<close> is the instant of the ISO string,
  and \<open>None\<close> when there is none (the property is null or missing).
\<close>

record payment_params =
  sourceAmount :: string
  connectorAccount :: jsval
  destinationAmount :: string
  destinationAccount :: jsval
  destinationMemo :: memo
  expiresAt :: "instant option"
  executionCondition :: jsval
  uuid :: "string option"

text \<open>
  The argument of \<^verbatim>\<open>createRequest\<close>. \<open>params_expiresAt\<close> is the instant of the ISO
  string the caller supplies, and \<open>None\<close> when the caller supplies none.
\<close>

record request_params =
  params_destinationAccount :: jsval
  params_destinationAmount :: jsval
  params_sharedSecret :: string
  params_id :: jsval
  params_expiresAt :: "instant option"
  params_data :: jsval

section \<open>The collaborators\<close>

text \<open>
  The ledger client (\<^verbatim>\<open>ilp-core\<close>) is not part of the repository. Every call the
  sender makes on it is recorded, in order; what the client answers is given by a
  \<open>ledger\<close>.
\<close>

datatype client_call =
    Connect
  | Quote quote_params
  | SendQuotedPayment payment_params
  | GetFulfillment string
  | On string nat
  | RemoveListener string nat
  | Disconnect

text \<open>
  A notification the client emits on \<^verbatim>\<open>'outgoing_fulfill'\<close>: when, the
  \<^verbatim>\<open>executionCondition\<close> of its transfer, and the fulfillment.
\<close>

record notification =
  emitted_at :: instant
  transfer_executionCondition :: jsval
  fulfillment :: jsval

record ledger =
  connect :: "js_error option"
  quote :: "quote_params \<Rightarrow> jsval promise"
  sendQuotedPayment :: "payment_params \<Rightarrow> js_error option"
  getFulfillment :: "string \<Rightarrow> jsval promise"
  getFulfillment_settles_at :: instant
  outgoing_fulfill :: "notification list"
  disconnect :: "js_error option"

text \<open>
  The mutable state a call works on: the objects callers hold references to, the calls
  made on the client so far, the listeners registered on the client (event name and
  the identity of the function), and the next unused function identity.
\<close>

record world =
  heap :: "nat \<Rightarrow> payment_params option"
  calls :: "client_call list"
  listeners :: "(string \<times> nat) list"
  fresh :: nat

definition call :: "client_call \<Rightarrow> world \<Rightarrow> world" where
  "call c w = w\<lparr>calls := calls w @ [c]\<rparr>"

text \<open>What the sender reads from the clock and the random generator during one call.\<close>

record runtime =
  now :: instant
  uuid_v4 :: string
  randomBytes :: bytes

text \<open>
  The helpers of \<^verbatim>\<open>../utils\<close>, of \<^verbatim>\<open>aguid\<close> and of \<^verbatim>\<open>Buffer\<close>, none of them in
  the repository's sources here: each is a function of its arguments, and the
  encryption also of the random bytes it draws.
\<close>

record lib =
  deterministicUuid :: "string \<Rightarrow> string"
  hmacJsonForPskCondition :: "payment_request \<Rightarrow> bytes \<Rightarrow> bytes"
  toConditionUri :: "bytes \<Rightarrow> string"
  aesEncryptObject :: "jsval \<Rightarrow> bytes \<Rightarrow> bytes \<Rightarrow> bytes"
  base64url :: "bytes \<Rightarrow> string"
  Buffer_from_base64 :: "string \<Rightarrow> bytes"

section \<open>createSender\<close>

record opts =
  opts_maxHoldDuration :: "int option"
  opts_defaultRequestTimeout :: "int option"
  opts_uuidSeed :: "bytes option"

record sender =
  maxHoldDuration :: int
  defaultRequestTimeout :: int
  uuidSeed :: string

text \<open>\<^verbatim>\<open>x || d\<close> for a number that may be missing: zero is falsy.\<close>

definition or_default :: "int option \<Rightarrow> int \<Rightarrow> int" where
  "or_default x d = (case x of None \<Rightarrow> d | Some n \<Rightarrow> if n = 0 then d else n)"

definition hex_digit :: "nat \<Rightarrow> char" where
  "hex_digit n = ''0123456789abcdef'' ! (n mod 16)"

definition toString_hex :: "bytes \<Rightarrow> string" where
  "toString_hex bs = concat (map (\<lambda>b. [hex_digit (unat b div 16), hex_digit (unat b)]) bs)"

definition createSender :: "runtime \<Rightarrow> opts \<Rightarrow> sender" where
  "createSender rt os =
     \<lparr> maxHoldDuration = or_default (opts_maxHoldDuration os) 10,
       defaultRequestTimeout = or_default (opts_defaultRequestTimeout os) 30,
       uuidSeed = toString_hex (case opts_uuidSeed os of Some b \<Rightarrow> b | None \<Rightarrow> randomBytes rt) \<rparr>"

section \<open>Quotes\<close>

definition quoteSourceAmount ::
  "ledger \<Rightarrow> jsval \<Rightarrow> jsval \<Rightarrow> world \<Rightarrow> string promise \<times> world" where
  "quoteSourceAmount E destinationAddress sourceAmount' w =
     (if \<not> truthy destinationAddress \<or> typeof destinationAddress \<noteq> ''string''
      then (Inl (Error ''Must provide destination address''), w)
      else if \<not> truthy sourceAmount'
      then (Inl (Error ''Must provide source amount''), w)
      else
        let w1 = call Connect w in
        case connect E of
          Some e \<Rightarrow> (Inl e, w1)
        | None \<Rightarrow>
            let q = \<lparr> q_destinationAddress = destinationAddress,
                      q_sourceAmount = JStr (js_String sourceAmount'),
                      q_destinationAmount = JUndefined \<rparr>;
                w2 = call (Quote q) w1
            in (case quote E q of
                 Inl e \<Rightarrow> (Inl e, w2)
               | Inr qt \<Rightarrow>
                   if \<not> truthy qt
                   then (Inl (Error ''Got empty quote response from the connector''), w2)
                   else (Inr (js_String (js_prop qt ''destinationAmount'')), w2)))"

definition quoteDestinationAmount ::
  "ledger \<Rightarrow> jsval \<Rightarrow> jsval \<Rightarrow> world \<Rightarrow> string promise \<times> world" where
  "quoteDestinationAmount E destinationAddress destinationAmount' w =
     (if \<not> truthy destinationAddress \<or> typeof destinationAddress \<noteq> ''string''
      then (Inl (Error ''Must provide destination address''), w)
      else if \<not> truthy destinationAmount'
      then (Inl (Error ''Must provide destination amount''), w)
      else
        let w1 = call Connect w in
        case connect E of
          Some e \<Rightarrow> (Inl e, w1)
        | None \<Rightarrow>
            let q = \<lparr> q_destinationAddress = destinationAddress,
                      q_sourceAmount = JUndefined,
                      q_destinationAmount = JStr (js_String destinationAmount') \<rparr>;
                w2 = call (Quote q) w1
            in (case quote E q of
                 Inl e \<Rightarrow> (Inl e, w2)
               | Inr qt \<Rightarrow>
                   if \<not> truthy qt
                   then (Inl (Error ''Got empty quote response from the connector''), w2)
                   else (Inr (js_String (js_prop qt ''sourceAmount'')), w2)))"

text \<open>
  Lines 129 to 132,
  \<^verbatim>\<open>moment.min([moment(request.expires_at), moment().add(maxHoldDuration, 'seconds')]).toISOString()\<close>:
  the hold duration is in seconds, instants are in milliseconds, and the result is null
  when one of the two moments is invalid.
\<close>

definition quoteRequest ::
  "sender \<Rightarrow> ledger \<Rightarrow> runtime \<Rightarrow> payment_request \<Rightarrow> world \<Rightarrow> payment_params promise \<times> world" where
  "quoteRequest S E rt request w =
     (if \<not> truthy (address request)
      then (Inl (Error ''Malformed payment request: no address''), w)
      else if \<not> truthy (amount request)
      then (Inl (Error ''Malformed payment request: no amount''), w)
      else if \<not> truthy (condition request)
      then (Inl (Error ''Malformed payment request: no condition''), w)
      else
        let w1 = call Connect w in
        case connect E of
          Some e \<Rightarrow> (Inl e, w1)
        | None \<Rightarrow>
            let q = \<lparr> q_destinationAddress = address request,
                      q_sourceAmount = JUndefined,
                      q_destinationAmount = amount request \<rparr>;
                w2 = call (Quote q) w1
            in (case quote E q of
                 Inl e \<Rightarrow> (Inl e, w2)
               | Inr qt \<Rightarrow>
                   if \<not> truthy qt
                   then (Inl (Error ''Got empty quote response from the connector''), w2)
                   else
                     (Inr \<lparr> sourceAmount = js_String (js_prop qt ''sourceAmount''),
                            connectorAccount = js_prop qt ''connectorAccount'',
                            destinationAmount = js_String (amount request),
                            destinationAccount = address request,
                            destinationMemo =
                              \<lparr> memo_data = data request,
                                memo_expires_at = expires_at request \<rparr>,
                            expiresAt =
                              moment_min (moment (now rt) (expires_at request))
                                (add_seconds (Some (now rt)) (maxHoldDuration S)),
                            executionCondition = condition request,
                            uuid = None \<rparr>,
                      w2)))"

section \<open>payRequest\<close>

text \<open>
  \<^verbatim>\<open>setTimeout(f, delay)\<close> called at \<open>t\<close>: the instant at which \<open>f\<close> runs, a
  delay below zero counting as none. Time is logical: the timer runs on the instant,
  and what is stamped with an earlier instant has happened before it. (Node's own
  bounds on a delay, which make one below a millisecond or above 2147483647 run after
  one millisecond, are not part of this.)
\<close>

definition setTimeout :: "instant \<Rightarrow> int \<Rightarrow> instant" where
  "setTimeout t delay = t + max 0 delay"

text \<open>
  \<^verbatim>\<open>emitter.removeListener(event, f)\<close> removes the instance of \<open>f\<close> added last.
\<close>

definition removeListener :: "string \<times> nat \<Rightarrow> (string \<times> nat) list \<Rightarrow> (string \<times> nat) list" where
  "removeListener l ls = rev (remove1 l (rev ls))"

text \<open>
  The promise of lines 161 to 179, once its listener is registered: the notifications
  are those emitted from then on, in the order of their emission, and the timer runs at
  \<open>fires\<close>. A notification emitted before the timer runs reaches \<^verbatim>\<open>fulfillmentListener\<close>,
  which resolves the promise when the conditions are identical; the timer rejects it.
  The result is the instant at which the promise settles, and how.
\<close>

fun promiseFulfillmentListener ::
  "jsval \<Rightarrow> instant \<Rightarrow> notification list \<Rightarrow> instant \<times> jsval promise" where
  "promiseFulfillmentListener cond fires [] =
     (fires, Inl (Error ''Transfer expired, money returned''))"
| "promiseFulfillmentListener cond fires (n # ns) =
     (if fires \<le> emitted_at n
      then (fires, Inl (Error ''Transfer expired, money returned''))
      else if strict_eq (transfer_executionCondition n) cond
      then (emitted_at n, Inr (fulfillment n))
      else promiseFulfillmentListener cond fires ns)"

text \<open>
  The handlers of lines 160 to 199, which run once the submission has gone through (or
  was a duplicate): set the timer, register the listener, ask the plugin for the
  fulfillment, and resolve with it or else with the listener's promise. The listener is
  off the client in the final state when its promise has settled by then. Parameters
  with no \<open>expiresAt\<close> set the timer with no delay: \<^verbatim>\<open>moment(undefined)\<close> is the
  current time, and the \<^verbatim>\<open>diff\<close> of an invalid moment is no number.
\<close>

definition payRequest_then ::
  "ledger \<Rightarrow> runtime \<Rightarrow> string \<Rightarrow> payment_params \<Rightarrow> world \<Rightarrow> jsval promise \<times> world" where
  "payRequest_then E rt transferId payment w =
     (let fulfillmentListener = (''outgoing_fulfill'', fresh w);
          fires = setTimeout (now rt)
                    ((case expiresAt payment of Some e \<Rightarrow> e | None \<Rightarrow> now rt) - now rt);
          w1 = call (On ''outgoing_fulfill'' (fresh w))
                 (w\<lparr>listeners := listeners w @ [fulfillmentListener], fresh := Suc (fresh w)\<rparr>);
          w2 = call (GetFulfillment transferId) w1;
          (settled, outcome) =
             promiseFulfillmentListener (executionCondition payment) fires
               (filter (\<lambda>n. now rt \<le> emitted_at n) (outgoing_fulfill E));
          w3 = call (RemoveListener ''outgoing_fulfill'' (fresh w))
                 (w2\<lparr>listeners := removeListener fulfillmentListener (listeners w2)\<rparr>);
          found = (case getFulfillment E transferId of
                     Inl err \<Rightarrow>
                       if name err = ''MissingFulfillmentError'' then Inr JNull else Inl err
                   | Inr f \<Rightarrow> Inr f);
          w' = (if settled < getFulfillment_settles_at E then w3 else w2)
      in case found of
           Inl err \<Rightarrow> (Inl err, w')
         | Inr f \<Rightarrow> if truthy f then (Inr f, w') else (outcome, w3))"

text \<open>
  Line 146, \<^verbatim>\<open>deterministicUuid(uuidSeed + paymentParams.executionCondition)\<close>: the
  condition is appended to the seed as a string.
\<close>

definition transferId :: "lib \<Rightarrow> sender \<Rightarrow> payment_params \<Rightarrow> string" where
  "transferId L S params =
     deterministicUuid L (uuidSeed S @ js_String (executionCondition params))"

text \<open>
  \<^verbatim>\<open>payRequest(paymentParams)\<close>, the argument being a reference into the heap (a
  reference that holds no object stands for an argument that is undefined, whose
  \<^verbatim>\<open>executionCondition\<close> cannot be read). \<^verbatim>\<open>Object.assign(paymentParams, {uuid: transferId})\<close>
  writes to the object the caller holds and returns it. A rejection of \<^verbatim>\<open>connect\<close>
  skips the submission and reaches the same \<^verbatim>\<open>catch\<close>. What the client rejects with
  is an error object. An error that the \<^verbatim>\<open>catch\<close> of lines 155 to 159 throws again
  skips the handler of line 160 and reaches the \<^verbatim>\<open>catch\<close> of lines 185 to 191: unless
  its name is \<open>MissingFulfillmentError\<close> it is thrown once more and rejects the call;
  with that name it becomes null, and line 198 returns \<^verbatim>\<open>promiseFulfillmentListener\<close>,
  which was never assigned, so the call resolves with undefined.
\<close>

definition payRequest ::
  "lib \<Rightarrow> sender \<Rightarrow> ledger \<Rightarrow> runtime \<Rightarrow> nat \<Rightarrow> world \<Rightarrow> jsval promise \<times> world" where
  "payRequest L S E rt paymentParams w =
     (case heap w paymentParams of
        None \<Rightarrow> (Inl (JsError ''TypeError'' ''Cannot read property of undefined''), w)
      | Some params \<Rightarrow>
          let payment = params\<lparr>uuid := Some (transferId L S params)\<rparr>;
              w0 = w\<lparr>heap := (heap w)(paymentParams \<mapsto> payment)\<rparr>;
              w1 = call Connect w0;
              (sent, w2) =
                 (case connect E of
                    Some err \<Rightarrow> (Some err, w1)
                  | None \<Rightarrow> (sendQuotedPayment E payment, call (SendQuotedPayment payment) w1));
              thrown = (case sent of
                          Some err \<Rightarrow> if name err \<noteq> ''DuplicateIdError'' then Some err else None
                        | None \<Rightarrow> None)
          in (case thrown of
                Some err \<Rightarrow>
                  (if name err = ''MissingFulfillmentError'' then Inr JUndefined else Inl err, w2)
              | None \<Rightarrow> payRequest_then E rt (transferId L S params) payment w2))"

section \<open>createRequest\<close>

text \<open>
  Line 219: the expiry the caller supplies, or else
  \<^verbatim>\<open>moment().add(defaultRequestTimeout, 'seconds').toISOString()\<close>.
\<close>

definition createRequest :: "lib \<Rightarrow> sender \<Rightarrow> runtime \<Rightarrow> request_params \<Rightarrow> payment_request" where
  "createRequest L S rt params =
     (let paymentRequest =
            \<lparr> address = params_destinationAccount params,
              amount = params_destinationAmount params,
              expires_at = (case params_expiresAt params of
                              Some e \<Rightarrow> DateString e
                            | None \<Rightarrow>
                                toISOString
                                  (add_seconds (Some (now rt)) (defaultRequestTimeout S))),
              data = JUndefined,
              condition = JUndefined \<rparr>;
          paymentRequest1 = paymentRequest
            \<lparr>address := JStr (js_String (address paymentRequest) @ ''.'' @
                 js_String (if truthy (params_id params) then params_id params
                            else JStr (uuid_v4 rt)))\<rparr>;
          sharedSecret = Buffer_from_base64 L (params_sharedSecret params);
          conditionPreimage = hmacJsonForPskCondition L paymentRequest1 sharedSecret;
          condition' = toConditionUri L conditionPreimage;
          paymentRequest2 =
            (if truthy (params_data params)
             then paymentRequest1
               \<lparr>data := JObj [(''blob'',
                  JStr (base64url L
                    (aesEncryptObject L (params_data params) sharedSecret (randomBytes rt))))]\<rparr>
             else paymentRequest1)
      in paymentRequest2\<lparr>condition := JStr condition'\<rparr>)"

section \<open>stopListening\<close>

definition stopListening :: "ledger \<Rightarrow> world \<Rightarrow> unit promise \<times> world" where
  "stopListening E w =
     ((case disconnect E of Some err \<Rightarrow> Inl err | None \<Rightarrow> Inr ()), call Disconnect w)"

section \<open>ReceiverRejectionError\<close>

text \<open>
  The class of \<^verbatim>\<open>part_000\<close>. \<^verbatim>\<open>BaseError\<close> (extensible-error) sets the name to the
  class's and the message to the string of the argument (empty when there is none);
  \<open>codes\<close> is the catalog object of \<^verbatim>\<open>../utils/ilp-errors\<close>, a parameter here.
\<close>

record receiver_rejection_error =
  rre_name :: string
  rre_message :: string
  ilpErrorCode :: jsval

definition ReceiverRejectionError :: "(string \<times> jsval) list \<Rightarrow> jsval \<Rightarrow> receiver_rejection_error" where
  "ReceiverRejectionError codes msg =
     \<lparr> rre_name = ''ReceiverRejectionError'',
       rre_message = (if msg = JUndefined then [] else js_String msg),
       ilpErrorCode = js_prop (JObj codes) ''F99_APPLICATION_ERROR'' \<rparr>"

section \<open>Example inputs\<close>

text \<open>
  Concrete collaborators and arguments, on which the theorems below are run. The helper
  functions are stand-ins of the right types: the key derivation prefixes its input,
  the HMAC lists the key and the fields it is given, the encodings print hexadecimal.
\<close>

definition toy_bytes :: "string \<Rightarrow> bytes" where
  "toy_bytes s = map (\<lambda>c. of_nat (of_char c)) s"

definition example_lib :: lib where
  "example_lib =
     \<lparr> deterministicUuid = (\<lambda>s. ''id-'' @ s),
       hmacJsonForPskCondition =
         (\<lambda>r k. k @ toy_bytes (js_String (address r) @ ''|'' @ js_String (amount r) @ ''|'' @
                   js_String (js_prop (data r) ''blob''))),
       toConditionUri = (\<lambda>b. ''cc:'' @ toString_hex b),
       aesEncryptObject = (\<lambda>d k r. r @ k),
       base64url = toString_hex,
       Buffer_from_base64 = toy_bytes \<rparr>"

definition example_runtime :: runtime where
  "example_runtime = \<lparr> now = 1000, uuid_v4 = ''v4'', randomBytes = [7, 9] \<rparr>"

definition later_runtime :: runtime where
  "later_runtime = \<lparr> now = 5000, uuid_v4 = ''other'', randomBytes = [1] \<rparr>"

definition example_sender :: sender where
  "example_sender =
     createSender example_runtime
       \<lparr> opts_maxHoldDuration = None,
         opts_defaultRequestTimeout = None,
         opts_uuidSeed = Some [171, 205] \<rparr>"

text \<open>A sender that holds for as long as a date can count.\<close>

definition patient_sender :: sender where
  "patient_sender =
     createSender example_runtime
       \<lparr> opts_maxHoldDuration = Some 8640000000000,
         opts_defaultRequestTimeout = None,
         opts_uuidSeed = Some [171, 205] \<rparr>"

definition example_request_params :: request_params where
  "example_request_params =
     \<lparr> params_destinationAccount = JStr ''g.bob'',
       params_destinationAmount = JStr ''100'',
       params_sharedSecret = ''c2VjcmV0'',
       params_id = JStr ''7'',
       params_expiresAt = Some 61000,
       params_data = JObj [(''memo'', JStr ''hi'')] \<rparr>"

definition example_request :: payment_request where
  "example_request =
     \<lparr> address = JStr ''g.bob.7'',
       amount = JStr ''100'',
       expires_at = DateString 61000,
       data = JUndefined,
       condition = JStr ''cc:0:3:abc'' \<rparr>"

definition example_params :: payment_params where
  "example_params =
     \<lparr> sourceAmount = ''105'',
       connectorAccount = JStr ''connie'',
       destinationAmount = ''100'',
       destinationAccount = JStr ''g.bob.7'',
       destinationMemo = \<lparr> memo_data = JUndefined, memo_expires_at = DateString 61000 \<rparr>,
       expiresAt = Some 11000,
       executionCondition = JStr ''cc:0:3:abc'',
       uuid = None \<rparr>"

definition other_params :: payment_params where
  "other_params = example_params\<lparr>sourceAmount := ''7'', executionCondition := JStr ''cc:0:3:xyz''\<rparr>"

definition example_world :: world where
  "example_world =
     \<lparr> heap = [0 \<mapsto> example_params, 1 \<mapsto> other_params],
       calls = [],
       listeners = [],
       fresh = 0 \<rparr>"

text \<open>A ledger on which the transfer goes through and is not fulfilled.\<close>

definition example_ledger :: ledger where
  "example_ledger =
     \<lparr> connect = None,
       quote = (\<lambda>q. Inr (JObj [(''sourceAmount'', JStr ''105''),
                              (''destinationAmount'', JStr ''100''),
                              (''connectorAccount'', JStr ''connie'')])),
       sendQuotedPayment = (\<lambda>p. None),
       getFulfillment = (\<lambda>i. Inl (JsError ''MissingFulfillmentError'' ''not fulfilled'')),
       getFulfillment_settles_at = 1000,
       outgoing_fulfill = [],
       disconnect = None \<rparr>"

text \<open>One on which the plugin already has the fulfillment.\<close>

definition fulfilled_ledger :: ledger where
  "fulfilled_ledger = example_ledger\<lparr>getFulfillment := (\<lambda>i. Inr (JStr ''proof''))\<rparr>"

text \<open>One that knows the transfer's id already, and one that refuses the transfer.\<close>

definition duplicate_ledger :: ledger where
  "duplicate_ledger =
     example_ledger\<lparr>sendQuotedPayment := (\<lambda>p. Some (JsError ''DuplicateIdError'' ''id exists''))\<rparr>"

definition refusing_ledger :: ledger where
  "refusing_ledger =
     example_ledger\<lparr>sendQuotedPayment := (\<lambda>p. Some (JsError ''NotAcceptedError'' ''no funds''))\<rparr>"

text \<open>One that refuses the transfer with an error of the name the plugin's lookup uses.\<close>

definition missing_ledger :: ledger where
  "missing_ledger =
     example_ledger\<lparr>sendQuotedPayment :=
       (\<lambda>p. Some (JsError ''MissingFulfillmentError'' ''no such transfer''))\<rparr>"

text \<open>
  One that notifies of another transfer's fulfillment before the example parameters
  expire, and of the paid transfer's only after.
\<close>

definition late_ledger :: ledger where
  "late_ledger =
     example_ledger\<lparr>outgoing_fulfill :=
       [\<lparr> emitted_at = 2000,
          transfer_executionCondition = JStr ''cc:0:3:xyz'',
          fulfillment = JStr ''other proof'' \<rparr>,
        \<lparr> emitted_at = 12000,
          transfer_executionCondition = JStr ''cc:0:3:abc'',
          fulfillment = JStr ''proof'' \<rparr>]\<rparr>"

section \<open>The listener, the wait and the submission\<close>

lemma removeListener_last: "removeListener l (ls @ [l]) = ls"
  by (simp add: removeListener_def)

lemma promiseFulfillmentListener_expires:
  "\<forall>n \<in> set ns. emitted_at n < fires \<longrightarrow> \<not> strict_eq (transfer_executionCondition n) c \<Longrightarrow>
   promiseFulfillmentListener c fires ns = (fires, Inl (Error ''Transfer expired, money returned''))"
  by (induction ns) auto

lemma promiseFulfillmentListener_not_before:
  "\<forall>n \<in> set ns. t \<le> emitted_at n \<Longrightarrow> t \<le> fires \<Longrightarrow>
   t \<le> fst (promiseFulfillmentListener c fires ns)"
  by (induction ns) auto

lemma setTimeout_not_before: "t \<le> setTimeout t d"
  by (simp add: setTimeout_def)

lemma payRequest_then_heap: "heap (snd (payRequest_then E rt tid p w)) = heap w"
  by (simp add: payRequest_then_def Let_def call_def split: prod.splits sum.splits)

lemma payRequest_then_calls:
  "\<exists>rest. calls (snd (payRequest_then E rt tid p w)) =
           calls w @ [On ''outgoing_fulfill'' (fresh w), GetFulfillment tid] @ rest"
  by (simp add: payRequest_then_def Let_def call_def split: prod.splits sum.splits)

lemma payRequest_then_ignores_submission:
  "payRequest_then (E\<lparr>sendQuotedPayment := f\<rparr>) rt tid p w = payRequest_then E rt tid p w"
  by (simp add: payRequest_then_def)

lemma payRequest_then_found:
  assumes "getFulfillment E tid = Inr f" and "truthy f"
  shows "fst (payRequest_then E rt tid p w) = Inr f"
  using assms by (simp add: payRequest_then_def Let_def split: prod.splits)

lemma payRequest_then_found_listening:
  assumes "getFulfillment E tid = Inr f" and "truthy f"
    and "getFulfillment_settles_at E \<le> now rt"
  shows "listeners (snd (payRequest_then E rt tid p w)) =
           listeners w @ [(''outgoing_fulfill'', fresh w)]"
proof -
  have "now rt \<le> fst (promiseFulfillmentListener (executionCondition p)
           (setTimeout (now rt) ((case expiresAt p of Some e \<Rightarrow> e | None \<Rightarrow> now rt) - now rt))
           (filter (\<lambda>n. now rt \<le> emitted_at n) (outgoing_fulfill E)))"
    by (rule promiseFulfillmentListener_not_before) (simp_all add: setTimeout_not_before)
  with assms show ?thesis
    by (auto simp add: payRequest_then_def Let_def call_def split: prod.splits)
qed

lemma payRequest_then_expired:
  assumes "(\<exists>err. getFulfillment E tid = Inl err \<and> name err = ''MissingFulfillmentError'')
           \<or> (\<exists>f. getFulfillment E tid = Inr f \<and> \<not> truthy f)"
    and "expiresAt p = Some x"
    and "\<forall>n \<in> set (outgoing_fulfill E). emitted_at n < x \<longrightarrow>
           \<not> strict_eq (transfer_executionCondition n) (executionCondition p)"
  shows "fst (payRequest_then E rt tid p w) = Inl (Error ''Transfer expired, money returned'')"
    and "listeners (snd (payRequest_then E rt tid p w)) = listeners w"
proof -
  let ?fires = "setTimeout (now rt) (x - now rt)"
  let ?ns = "filter (\<lambda>n. now rt \<le> emitted_at n) (outgoing_fulfill E)"
  have "\<forall>n \<in> set ?ns. emitted_at n < ?fires \<longrightarrow>
          \<not> strict_eq (transfer_executionCondition n) (executionCondition p)"
    using assms(3) by (auto simp: setTimeout_def max_def split: if_splits)
  then have l: "promiseFulfillmentListener (executionCondition p) ?fires ?ns =
      (?fires, Inl (Error ''Transfer expired, money returned''))"
    by (rule promiseFulfillmentListener_expires)
  show "fst (payRequest_then E rt tid p w) = Inl (Error ''Transfer expired, money returned'')"
    using assms(1,2) l by (auto simp add: payRequest_then_def Let_def)
  show "listeners (snd (payRequest_then E rt tid p w)) = listeners w"
    using assms(1,2) l by (auto simp add: payRequest_then_def Let_def call_def removeListener_last)
qed

lemma payRequest_heap:
  "heap w r = Some p \<Longrightarrow>
   heap (snd (payRequest L S E rt r w)) = (heap w)(r \<mapsto> p\<lparr>uuid := Some (transferId L S p)\<rparr>)"
  by (simp add: payRequest_def Let_def call_def payRequest_then_heap split: prod.splits option.splits)

lemma payRequest_submitted:
  assumes "heap w r = Some p" and "connect E = None"
    and "sendQuotedPayment E (p\<lparr>uuid := Some (transferId L S p)\<rparr>) = None
         \<or> (\<exists>err. sendQuotedPayment E (p\<lparr>uuid := Some (transferId L S p)\<rparr>) = Some err
                 \<and> name err = ''DuplicateIdError'')"
  shows "payRequest L S E rt r w =
           payRequest_then E rt (transferId L S p) (p\<lparr>uuid := Some (transferId L S p)\<rparr>)
             (w\<lparr>heap := (heap w)(r \<mapsto> p\<lparr>uuid := Some (transferId L S p)\<rparr>),
                calls := calls w @ [Connect, SendQuotedPayment (p\<lparr>uuid := Some (transferId L S p)\<rparr>)]\<rparr>)"
  using assms by (auto simp add: payRequest_def Let_def call_def)

lemma payRequest_refused:
  assumes "heap w r = Some p" and "connect E = None"
    and "sendQuotedPayment E (p\<lparr>uuid := Some (transferId L S p)\<rparr>) = Some err"
    and "name err \<noteq> ''DuplicateIdError''" and "name err \<noteq> ''MissingFulfillmentError''"
  shows "payRequest L S E rt r w =
           (Inl err, w\<lparr>heap := (heap w)(r \<mapsto> p\<lparr>uuid := Some (transferId L S p)\<rparr>),
                      calls := calls w @ [Connect, SendQuotedPayment (p\<lparr>uuid := Some (transferId L S p)\<rparr>)]\<rparr>)"
  using assms by (auto simp add: payRequest_def Let_def call_def)

section \<open>The transfer id\<close>

text \<open>
  C1. The transfer id that \<^verbatim>\<open>payRequest\<close> computes, read off the \<open>uuid\<close> it writes
  to its argument, is \<open>deterministicUuid\<close> of the sender's seed followed by the
  execution condition, whatever the ledger, the clock and the rest of the argument are:
  two calls on the same sender with the same execution condition compute the same id.
  Two conditions that are different strings give the key derivation different inputs,
  so the two ids differ unless \<open>deterministicUuid\<close> collides on these two inputs.
\<close>

theorem transferId_from_seed_and_condition:
  assumes "heap w1 r1 = Some p1" and "heap w2 r2 = Some p2"
  shows "map_option uuid (heap (snd (payRequest L S E1 rt1 r1 w1)) r1) =
           Some (Some (deterministicUuid L (uuidSeed S @ js_String (executionCondition p1))))
       \<and> (executionCondition p1 = executionCondition p2 \<longrightarrow>
            map_option uuid (heap (snd (payRequest L S E1 rt1 r1 w1)) r1) =
            map_option uuid (heap (snd (payRequest L S E2 rt2 r2 w2)) r2))
       \<and> (executionCondition p1 = JStr c1 \<and> executionCondition p2 = JStr c2 \<and> c1 \<noteq> c2 \<longrightarrow>
            uuidSeed S @ c1 \<noteq> uuidSeed S @ c2
            \<and> (inj_on (deterministicUuid L) {uuidSeed S @ c1, uuidSeed S @ c2} \<longrightarrow>
                 map_option uuid (heap (snd (payRequest L S E1 rt1 r1 w1)) r1) \<noteq>
                 map_option uuid (heap (snd (payRequest L S E2 rt2 r2 w2)) r2)))"
  using assms by (auto simp add: payRequest_heap transferId_def inj_on_def)

text \<open>
  On the example sender (seed \<open>abcd\<close>): the same object paid on two ledgers at two
  times gets the same id, and the object with the other condition a different one.
\<close>

theorem transferId_from_seed_and_condition_witness:
  "map_option uuid (heap (snd (payRequest example_lib example_sender example_ledger example_runtime 0 example_world)) 0) =
     Some (Some ''id-abcdcc:0:3:abc'')
   \<and> map_option uuid (heap (snd (payRequest example_lib example_sender example_ledger example_runtime 0 example_world)) 0) =
     map_option uuid (heap (snd (payRequest example_lib example_sender fulfilled_ledger later_runtime 0 example_world)) 0)
   \<and> map_option uuid (heap (snd (payRequest example_lib example_sender example_ledger example_runtime 0 example_world)) 0) \<noteq>
     map_option uuid (heap (snd (payRequest example_lib example_sender example_ledger example_runtime 1 example_world)) 1)"
proof -
  have h0: "heap example_world 0 = Some example_params"
    by (simp add: example_world_def)
  have h1: "heap example_world 1 = Some other_params"
    by (simp add: example_world_def)
  have seed: "uuidSeed example_sender = ''abcd''"
    by (simp add: example_sender_def createSender_def toString_hex_def hex_digit_def)
  have c0: "executionCondition example_params = JStr ''cc:0:3:abc''"
    by (simp add: example_params_def)
  have c1: "executionCondition other_params = JStr ''cc:0:3:xyz''"
    by (simp add: other_params_def example_params_def)
  have d: "deterministicUuid example_lib = (\<lambda>s. ''id-'' @ s)"
    by (simp add: example_lib_def)
  from transferId_from_seed_and_condition [OF h0 h0, of example_lib example_sender example_ledger example_runtime
      fulfilled_ledger later_runtime "''cc:0:3:abc''" "''cc:0:3:abc''"]
    transferId_from_seed_and_condition [OF h0 h1, of example_lib example_sender example_ledger example_runtime
      example_ledger example_runtime "''cc:0:3:abc''" "''cc:0:3:xyz''"]
  show ?thesis
    by (auto simp add: seed c0 c1 d)
qed

section \<open>Submission failures\<close>

text \<open>
  What holds of a failed submission. When the client is connected and
  \<^verbatim>\<open>sendQuotedPayment\<close> rejects with an error named \<open>DuplicateIdError\<close>,
  \<^verbatim>\<open>payRequest\<close> behaves exactly as if the submission had succeeded, and goes on to ask
  the plugin for the fulfillment of the transfer id. When it rejects with an error of
  another name, and that name is not \<open>MissingFulfillmentError\<close>, \<^verbatim>\<open>payRequest\<close> rejects
  with that same error, having called the client twice only (\<open>connect\<close> and the one
  submission), and having registered no listener.
\<close>

lemma payRequest_duplicate_tolerated:
  assumes "heap w r = Some p" and "connect E = None"
    and "sendQuotedPayment E (p\<lparr>uuid := Some (transferId L S p)\<rparr>) = Some err"
    and "name err = ''DuplicateIdError''"
  shows "payRequest L S E rt r w = payRequest L S (E\<lparr>sendQuotedPayment := (\<lambda>q. None)\<rparr>) rt r w"
    and "GetFulfillment (transferId L S p) \<in> set (calls (snd (payRequest L S E rt r w)))"
proof -
  let ?payment = "p\<lparr>uuid := Some (transferId L S p)\<rparr>"
  let ?w = "w\<lparr>heap := (heap w)(r \<mapsto> ?payment), calls := calls w @ [Connect, SendQuotedPayment ?payment]\<rparr>"
  let ?E' = "E\<lparr>sendQuotedPayment := (\<lambda>q. None)\<rparr>"
  have a: "payRequest L S E rt r w = payRequest_then E rt (transferId L S p) ?payment ?w"
    using assms by (intro payRequest_submitted) auto
  have b: "payRequest L S ?E' rt r w = payRequest_then ?E' rt (transferId L S p) ?payment ?w"
    using assms by (intro payRequest_submitted) auto
  show "payRequest L S E rt r w = payRequest L S ?E' rt r w"
    by (simp only: a b payRequest_then_ignores_submission)
  obtain rest where "calls (snd (payRequest L S E rt r w)) =
      calls ?w @ [On ''outgoing_fulfill'' (fresh ?w), GetFulfillment (transferId L S p)] @ rest"
    unfolding a using payRequest_then_calls by blast
  then show "GetFulfillment (transferId L S p) \<in> set (calls (snd (payRequest L S E rt r w)))"
    by simp
qed

lemma payRequest_other_failures_fatal:
  assumes "heap w r = Some p" and "connect E = None"
    and "sendQuotedPayment E (p\<lparr>uuid := Some (transferId L S p)\<rparr>) = Some err"
    and "name err \<noteq> ''DuplicateIdError''" and "name err \<noteq> ''MissingFulfillmentError''"
  shows "fst (payRequest L S E rt r w) = Inl err"
    and "calls (snd (payRequest L S E rt r w)) =
           calls w @ [Connect, SendQuotedPayment (p\<lparr>uuid := Some (transferId L S p)\<rparr>)]"
    and "listeners (snd (payRequest L S E rt r w)) = listeners w"
  using payRequest_refused [OF assms] by simp_all

text \<open>
  C2. A submission failure that is not a duplicate-id error should come back as the
  rejection of \<^verbatim>\<open>payRequest\<close>, unchanged. It does not when the error is named
  \<open>MissingFulfillmentError\<close>: line 157 throws it again, but the \<^verbatim>\<open>catch\<close> of lines
  185 to 191, written for the plugin's lookup, takes it for a missing fulfillment. On
  the ledger that refuses the transfer with such an error the call resolves, with
  undefined, after \<open>connect\<close> and the one submission; no listener was registered and the
  plugin was not asked.
\<close>

theorem payRequest_resolves_on_refused_submission:
  "sendQuotedPayment missing_ledger
      (example_params\<lparr>uuid := Some (transferId example_lib example_sender example_params)\<rparr>) =
     Some (JsError ''MissingFulfillmentError'' ''no such transfer'')
   \<and> fst (payRequest example_lib example_sender missing_ledger example_runtime 0 example_world) =
       Inr JUndefined
   \<and> calls (snd (payRequest example_lib example_sender missing_ledger example_runtime 0 example_world)) =
       [Connect, SendQuotedPayment (example_params\<lparr>uuid := Some ''id-abcdcc:0:3:abc''\<rparr>)]
   \<and> listeners (snd (payRequest example_lib example_sender missing_ledger example_runtime 0 example_world)) = []"
  by (simp add: payRequest_def transferId_def Let_def call_def
      example_lib_def example_sender_def createSender_def toString_hex_def hex_digit_def
      missing_ledger_def example_ledger_def example_world_def example_params_def)

section \<open>The expiry of a quoted request\<close>

text \<open>
  C3, as the specification states it: for every request, the \<open>expiresAt\<close> that
  \<^verbatim>\<open>quoteRequest\<close> resolves with would be the earlier of the request's expiry and the
  current time plus the maximum hold duration. For the sender that holds for
  8640000000000 seconds, the current time plus the hold is no date any more: the
  request expires at 61000, which is the earlier of the two, and \<open>expiresAt\<close> is null.
  It is null as well, on the example sender, for a request whose expiry does not parse.
\<close>

theorem quoteRequest_expiry_is_minimum_counterexample:
  "expires_at example_request = DateString 61000
   \<and> min 61000 (now example_runtime + maxHoldDuration patient_sender * 1000) = 61000
   \<and> fst (quoteRequest patient_sender example_ledger example_runtime example_request example_world) =
       Inr (example_params\<lparr>expiresAt := None\<rparr>)
   \<and> fst (quoteRequest example_sender example_ledger example_runtime
            (example_request\<lparr>expires_at := DateUnparseable\<rparr>) example_world) =
       Inr (example_params
              \<lparr>destinationMemo := \<lparr> memo_data = JUndefined, memo_expires_at = DateUnparseable \<rparr>,
               expiresAt := None\<rparr>)"
  by (simp add: quoteRequest_def Let_def call_def patient_sender_def example_sender_def
      createSender_def or_default_def
      moment_min_def add_seconds_def valid_date_def
      example_ledger_def example_runtime_def example_request_def example_params_def)

text \<open>
  C3, amended. When \<^verbatim>\<open>quoteRequest\<close> resolves for a request whose expiry is a date,
  and the current time plus the sender's maximum hold duration is a date too (both
  within 8.64e15 milliseconds of the epoch), the \<open>expiresAt\<close> of the payment parameters
  is the earlier of the two; so a request that expires later than the current time plus
  the maximum hold duration gets exactly that.
\<close>

theorem quoteRequest_expiry_clamped:
  assumes "quoteRequest S E rt request w = (Inr params, w')"
    and "expires_at request = DateString e"
    and "\<bar>e\<bar> \<le> 8640000000000000"
    and "\<bar>now rt + maxHoldDuration S * 1000\<bar> \<le> 8640000000000000"
  shows "expiresAt params = Some (min e (now rt + maxHoldDuration S * 1000))
       \<and> (now rt + maxHoldDuration S * 1000 < e \<longrightarrow>
            expiresAt params = Some (now rt + maxHoldDuration S * 1000))"
  using assms
  by (auto simp add: quoteRequest_def Let_def moment_min_def add_seconds_def valid_date_def
      split: if_splits option.splits sum.splits)

text \<open>
  The example request expires at 61000; quoted at 1000 by the example sender, which
  holds for 10 seconds, it resolves with the example parameters, which expire at 11000.
\<close>

theorem quoteRequest_expiry_clamped_witness:
  "quoteRequest example_sender example_ledger example_runtime example_request example_world =
     (Inr example_params,
      example_world\<lparr>calls := [Connect, Quote \<lparr> q_destinationAddress = JStr ''g.bob.7'',
         q_sourceAmount = JUndefined, q_destinationAmount = JStr ''100'' \<rparr>]\<rparr>)
   \<and> expires_at example_request = DateString 61000
   \<and> now example_runtime + maxHoldDuration example_sender * 1000 = 11000
   \<and> expiresAt example_params = Some 11000"
proof -
  have q: "quoteRequest example_sender example_ledger example_runtime example_request example_world =
     (Inr example_params,
      example_world\<lparr>calls := [Connect, Quote \<lparr> q_destinationAddress = JStr ''g.bob.7'',
         q_sourceAmount = JUndefined, q_destinationAmount = JStr ''100'' \<rparr>]\<rparr>)"
    by (simp add: quoteRequest_def Let_def call_def example_sender_def createSender_def or_default_def
        moment_min_def add_seconds_def valid_date_def
        example_ledger_def example_runtime_def example_request_def example_params_def example_world_def)
  have x: "expires_at example_request = DateString 61000"
    by (simp add: example_request_def)
  have m: "now example_runtime + maxHoldDuration example_sender * 1000 = 11000"
    by (simp add: example_runtime_def example_sender_def createSender_def or_default_def)
  have r: "\<bar>61000 :: int\<bar> \<le> 8640000000000000"
    and r': "\<bar>now example_runtime + maxHoldDuration example_sender * 1000\<bar> \<le> 8640000000000000"
    by (simp_all add: m)
  from quoteRequest_expiry_clamped [OF q x r r'] q x m show ?thesis
    by simp
qed

section \<open>The condition of a created request\<close>

text \<open>
  C4, as the specification states it: when data is supplied, the condition of the
  request that \<^verbatim>\<open>createRequest\<close> returns would be the condition derived from the
  request's assembled fields, the encrypted data among them. On the example it is not:
  the request carries the blob, and its condition differs from the one derived from the
  fields of the returned request.
\<close>

theorem createRequest_condition_over_assembled_fields_counterexample:
  "truthy (params_data example_request_params)
   \<and> data (createRequest example_lib example_sender example_runtime example_request_params) =
       JObj [(''blob'', JStr ''07096332566a636d5630'')]
   \<and> condition (createRequest example_lib example_sender example_runtime example_request_params) \<noteq>
       JStr (toConditionUri example_lib
         (hmacJsonForPskCondition example_lib
            ((createRequest example_lib example_sender example_runtime example_request_params)
               \<lparr>condition := JUndefined\<rparr>)
            (Buffer_from_base64 example_lib (params_sharedSecret example_request_params))))"
  by (simp add: createRequest_def example_lib_def example_sender_def example_runtime_def
      example_request_params_def toy_bytes_def toString_hex_def hex_digit_def createSender_def
      or_default_def)

text \<open>
  C4, amended. The condition is derived (lines 225 and 226) before the data is attached
  (lines 228 to 232): it is the condition of the destination address with the
  discriminator appended, the amount and the expiry, with no data, under the decoded
  shared secret; and the supplied data has no influence on it.
\<close>

theorem createRequest_condition_before_data:
  "condition (createRequest L S rt params) =
     JStr (toConditionUri L
       (hmacJsonForPskCondition L
          \<lparr> address = JStr (js_String (params_destinationAccount params) @ ''.'' @
                js_String (if truthy (params_id params) then params_id params
                           else JStr (uuid_v4 rt))),
            amount = params_destinationAmount params,
            expires_at = (case params_expiresAt params of
                            Some e \<Rightarrow> DateString e
                          | None \<Rightarrow>
                              toISOString
                                (add_seconds (Some (now rt)) (defaultRequestTimeout S))),
            data = JUndefined,
            condition = JUndefined \<rparr>
          (Buffer_from_base64 L (params_sharedSecret params))))
   \<and> condition (createRequest L S rt (params\<lparr>params_data := d\<rparr>)) =
       condition (createRequest L S rt params)"
  by (simp add: createRequest_def Let_def)

section \<open>A transfer that is already fulfilled\<close>

text \<open>
  C5, as the specification states it: when the plugin already has the fulfillment,
  \<^verbatim>\<open>payRequest\<close> would resolve with it and never register a listener. On the example
  it resolves with the proof, and has called \<^verbatim>\<open>client.on('outgoing_fulfill', ...)\<close>
  before \<^verbatim>\<open>getFulfillment\<close>; the listener is on the client when it resolves.
\<close>

theorem already_fulfilled_registers_no_listener_counterexample:
  "getFulfillment fulfilled_ledger (transferId example_lib example_sender example_params) = Inr (JStr ''proof'')
   \<and> fst (payRequest example_lib example_sender fulfilled_ledger example_runtime 0 example_world) =
       Inr (JStr ''proof'')
   \<and> calls (snd (payRequest example_lib example_sender fulfilled_ledger example_runtime 0 example_world)) =
       [Connect,
        SendQuotedPayment (example_params\<lparr>uuid := Some ''id-abcdcc:0:3:abc''\<rparr>),
        On ''outgoing_fulfill'' 0,
        GetFulfillment ''id-abcdcc:0:3:abc'']
   \<and> listeners (snd (payRequest example_lib example_sender fulfilled_ledger example_runtime 0 example_world)) =
       [(''outgoing_fulfill'', 0)]"
  by (simp add: payRequest_def payRequest_then_def transferId_def Let_def call_def setTimeout_def
      example_lib_def example_sender_def createSender_def toString_hex_def hex_digit_def
      fulfilled_ledger_def example_ledger_def example_runtime_def example_world_def example_params_def)

text \<open>
  C5, amended. When the submission went through (or was a duplicate) and the plugin
  answers the lookup of the transfer id with a fulfillment, \<^verbatim>\<open>payRequest\<close> resolves
  with that fulfillment, whatever the notifications and the deadline are; by then it has
  registered its \<open>outgoing_fulfill\<close> listener on the client, which it does before it
  asks the plugin.
\<close>

theorem already_fulfilled_resolves_with_listener_registered:
  assumes "heap w r = Some p" and "connect E = None"
    and "sendQuotedPayment E (p\<lparr>uuid := Some (transferId L S p)\<rparr>) = None
         \<or> (\<exists>err. sendQuotedPayment E (p\<lparr>uuid := Some (transferId L S p)\<rparr>) = Some err
                 \<and> name err = ''DuplicateIdError'')"
    and "getFulfillment E (transferId L S p) = Inr f" and "truthy f"
  shows "fst (payRequest L S E rt r w) = Inr f
       \<and> (\<exists>rest. calls (snd (payRequest L S E rt r w)) =
            calls w @ [Connect, SendQuotedPayment (p\<lparr>uuid := Some (transferId L S p)\<rparr>),
                       On ''outgoing_fulfill'' (fresh w), GetFulfillment (transferId L S p)] @ rest)"
proof -
  let ?payment = "p\<lparr>uuid := Some (transferId L S p)\<rparr>"
  let ?w = "w\<lparr>heap := (heap w)(r \<mapsto> ?payment), calls := calls w @ [Connect, SendQuotedPayment ?payment]\<rparr>"
  have a: "payRequest L S E rt r w = payRequest_then E rt (transferId L S p) ?payment ?w"
    using assms(1-3) by (rule payRequest_submitted)
  have "fst (payRequest L S E rt r w) = Inr f"
    unfolding a using assms(4,5) by (rule payRequest_then_found)
  moreover have "\<exists>rest. calls (snd (payRequest L S E rt r w)) =
            calls w @ [Connect, SendQuotedPayment ?payment,
                       On ''outgoing_fulfill'' (fresh w), GetFulfillment (transferId L S p)] @ rest"
    unfolding a using payRequest_then_calls [of E rt "transferId L S p" ?payment ?w] by simp
  ultimately show ?thesis by blast
qed

text \<open>
  On the example world, for the second object and a ledger that has both the transfer
  and its fulfillment already.
\<close>

theorem already_fulfilled_resolves_with_listener_registered_witness:
  "fst (payRequest example_lib example_sender (fulfilled_ledger\<lparr>sendQuotedPayment := sendQuotedPayment duplicate_ledger\<rparr>)
          example_runtime 1 example_world) = Inr (JStr ''proof'')
   \<and> (\<exists>rest. calls (snd (payRequest example_lib example_sender
          (fulfilled_ledger\<lparr>sendQuotedPayment := sendQuotedPayment duplicate_ledger\<rparr>) example_runtime 1 example_world)) =
        [Connect, SendQuotedPayment (other_params\<lparr>uuid := Some ''id-abcdcc:0:3:xyz''\<rparr>),
         On ''outgoing_fulfill'' 0, GetFulfillment ''id-abcdcc:0:3:xyz''] @ rest)"
proof -
  let ?E = "fulfilled_ledger\<lparr>sendQuotedPayment := sendQuotedPayment duplicate_ledger\<rparr>"
  have h: "heap example_world 1 = Some other_params"
    by (simp add: example_world_def)
  have t: "transferId example_lib example_sender other_params = ''id-abcdcc:0:3:xyz''"
    by (simp add: transferId_def example_lib_def example_sender_def createSender_def
        toString_hex_def hex_digit_def other_params_def example_params_def)
  have c: "connect ?E = None"
    by (simp add: fulfilled_ledger_def example_ledger_def)
  have s: "sendQuotedPayment ?E (other_params\<lparr>uuid := Some (transferId example_lib example_sender other_params)\<rparr>) = None
         \<or> (\<exists>err. sendQuotedPayment ?E (other_params\<lparr>uuid := Some (transferId example_lib example_sender other_params)\<rparr>) = Some err
                 \<and> name err = ''DuplicateIdError'')"
    by (simp add: duplicate_ledger_def)
  have g: "getFulfillment ?E (transferId example_lib example_sender other_params) = Inr (JStr ''proof'')"
    by (simp add: fulfilled_ledger_def)
  have f: "truthy (JStr ''proof'')"
    by simp
  have w: "calls example_world = []" "fresh example_world = 0"
    by (simp_all add: example_world_def)
  from already_fulfilled_resolves_with_listener_registered [OF h c s g f, of example_runtime]
  show ?thesis
    by (simp add: t w)
qed

section \<open>A transfer that expires\<close>

text \<open>
  C6. When the submission went through (or was a duplicate), the plugin has no
  fulfillment for the transfer id (it rejects with \<open>MissingFulfillmentError\<close>, or
  answers with a falsy value), and no notification emitted before the parameters'
  \<open>expiresAt\<close> carries the paid execution condition, \<^verbatim>\<open>payRequest\<close> rejects with
  the error of the timer, \<^verbatim>\<open>new Error('Transfer expired, money returned')\<close> (the
  expired-transfer error of the specification), and the listeners on the client are
  those from before the call: the one the call registered has been removed.
\<close>

theorem expired_without_fulfillment:
  assumes "heap w r = Some p" and "connect E = None"
    and "sendQuotedPayment E (p\<lparr>uuid := Some (transferId L S p)\<rparr>) = None
         \<or> (\<exists>err. sendQuotedPayment E (p\<lparr>uuid := Some (transferId L S p)\<rparr>) = Some err
                 \<and> name err = ''DuplicateIdError'')"
    and "(\<exists>err. getFulfillment E (transferId L S p) = Inl err \<and> name err = ''MissingFulfillmentError'')
         \<or> (\<exists>f. getFulfillment E (transferId L S p) = Inr f \<and> \<not> truthy f)"
    and "expiresAt p = Some x"
    and "\<forall>n \<in> set (outgoing_fulfill E). emitted_at n < x \<longrightarrow>
           \<not> strict_eq (transfer_executionCondition n) (executionCondition p)"
  shows "fst (payRequest L S E rt r w) = Inl (Error ''Transfer expired, money returned'')
       \<and> listeners (snd (payRequest L S E rt r w)) = listeners w"
proof -
  let ?payment = "p\<lparr>uuid := Some (transferId L S p)\<rparr>"
  let ?w = "w\<lparr>heap := (heap w)(r \<mapsto> ?payment), calls := calls w @ [Connect, SendQuotedPayment ?payment]\<rparr>"
  have a: "payRequest L S E rt r w = payRequest_then E rt (transferId L S p) ?payment ?w"
    using assms(1-3) by (rule payRequest_submitted)
  have x: "expiresAt ?payment = Some x"
    using assms(5) by simp
  have n: "\<forall>n \<in> set (outgoing_fulfill E). emitted_at n < x \<longrightarrow>
           \<not> strict_eq (transfer_executionCondition n) (executionCondition ?payment)"
    using assms(6) by simp
  show ?thesis
    unfolding a using payRequest_then_expired [OF assms(4) x n, of rt ?w] by simp
qed

text \<open>
  On the ledger whose only notification for the paid condition comes at 12000, after
  the expiry at 11000.
\<close>

theorem expired_without_fulfillment_witness:
  "fst (payRequest example_lib example_sender late_ledger example_runtime 0 example_world) =
     Inl (JsError ''Error'' ''Transfer expired, money returned'')
   \<and> listeners (snd (payRequest example_lib example_sender late_ledger example_runtime 0 example_world)) = []"
proof -
  have h: "heap example_world 0 = Some example_params"
    by (simp add: example_world_def)
  have c: "connect late_ledger = None"
    by (simp add: late_ledger_def example_ledger_def)
  have s: "sendQuotedPayment late_ledger (example_params\<lparr>uuid := Some (transferId example_lib example_sender example_params)\<rparr>) = None
         \<or> (\<exists>err. sendQuotedPayment late_ledger (example_params\<lparr>uuid := Some (transferId example_lib example_sender example_params)\<rparr>) = Some err
                 \<and> name err = ''DuplicateIdError'')"
    by (simp add: late_ledger_def example_ledger_def)
  have g: "(\<exists>err. getFulfillment late_ledger (transferId example_lib example_sender example_params) = Inl err
               \<and> name err = ''MissingFulfillmentError'')
         \<or> (\<exists>f. getFulfillment late_ledger (transferId example_lib example_sender example_params) = Inr f \<and> \<not> truthy f)"
    by (simp add: late_ledger_def example_ledger_def)
  have x: "expiresAt example_params = Some 11000"
    by (simp add: example_params_def)
  have n: "\<forall>n \<in> set (outgoing_fulfill late_ledger). emitted_at n < 11000 \<longrightarrow>
           \<not> strict_eq (transfer_executionCondition n) (executionCondition example_params)"
    by (simp add: late_ledger_def example_params_def)
  have w: "listeners example_world = []"
    by (simp add: example_world_def)
  from expired_without_fulfillment [OF h c s g x n, of example_runtime]
  show ?thesis
    by (simp add: w Error_def)
qed

section \<open>Determinism of the condition\<close>

text \<open>
  C7. The condition is a function of the request fields and the shared secret alone:
  when the caller supplies an id (a truthy one) and an expiry, the condition that
  \<^verbatim>\<open>createRequest\<close> returns is the same whatever the clock reads and whatever the
  random generator yields (\<^verbatim>\<open>uuid.v4()\<close>, the encryption's random bytes).
\<close>

theorem createRequest_condition_deterministic:
  assumes "truthy (params_id params)" and "params_expiresAt params = Some e"
  shows "condition (createRequest L S rt params) = condition (createRequest L S rt' params)"
  using assms by (simp add: createRequest_def Let_def)

text \<open>
  On the example parameters, created at two times with two random states: the
  conditions agree, the encrypted data does not.
\<close>

theorem createRequest_condition_deterministic_witness:
  "truthy (params_id example_request_params)
   \<and> params_expiresAt example_request_params = Some 61000
   \<and> condition (createRequest example_lib example_sender example_runtime example_request_params) =
       condition (createRequest example_lib example_sender later_runtime example_request_params)
   \<and> data (createRequest example_lib example_sender example_runtime example_request_params) \<noteq>
       data (createRequest example_lib example_sender later_runtime example_request_params)"
proof -
  have i: "truthy (params_id example_request_params)"
    and x: "params_expiresAt example_request_params = Some 61000"
    by (simp_all add: example_request_params_def)
  have d: "data (createRequest example_lib example_sender example_runtime example_request_params) \<noteq>
       data (createRequest example_lib example_sender later_runtime example_request_params)"
    by (simp add: createRequest_def example_lib_def example_runtime_def later_runtime_def
      example_request_params_def toy_bytes_def toString_hex_def hex_digit_def)
  from createRequest_condition_deterministic [OF i x, of example_lib example_sender example_runtime later_runtime]
    i x d
  show ?thesis by simp
qed

section \<open>Missing arguments\<close>

text \<open>
  C8. A call of \<^verbatim>\<open>quoteSourceAmount\<close>, \<^verbatim>\<open>quoteDestinationAmount\<close> or
  \<^verbatim>\<open>quoteRequest\<close> in which a required input is missing (undefined or null) or the
  empty string is rejected with the error that names the missing input (the
  invalid-argument error of the specification), and the world is as before: no call has
  been made on the ledger client.
\<close>

theorem missing_input_rejected_locally:
  "(a \<in> {JUndefined, JNull, JStr []} \<or> s \<in> {JUndefined, JNull, JStr []} \<longrightarrow>
      fst (quoteSourceAmount E a s w) \<in>
        {Inl (Error ''Must provide destination address''), Inl (Error ''Must provide source amount'')}
      \<and> snd (quoteSourceAmount E a s w) = w)
   \<and> (a \<in> {JUndefined, JNull, JStr []} \<or> d \<in> {JUndefined, JNull, JStr []} \<longrightarrow>
      fst (quoteDestinationAmount E a d w) \<in>
        {Inl (Error ''Must provide destination address''), Inl (Error ''Must provide destination amount'')}
      \<and> snd (quoteDestinationAmount E a d w) = w)
   \<and> (address r \<in> {JUndefined, JNull, JStr []} \<or> amount r \<in> {JUndefined, JNull, JStr []}
        \<or> condition r \<in> {JUndefined, JNull, JStr []} \<longrightarrow>
      fst (quoteRequest S E rt r w) \<in>
        {Inl (Error ''Malformed payment request: no address''),
         Inl (Error ''Malformed payment request: no amount''),
         Inl (Error ''Malformed payment request: no condition'')}
      \<and> snd (quoteRequest S E rt r w) = w)"
  by (auto simp: quoteSourceAmount_def quoteDestinationAmount_def quoteRequest_def)

text \<open>
  A missing source amount, an empty destination address and a null condition.
\<close>

theorem missing_input_rejected_locally_witness:
  "quoteSourceAmount example_ledger (JStr ''g.bob'') JUndefined example_world =
     (Inl (Error ''Must provide source amount''), example_world)
   \<and> quoteDestinationAmount example_ledger (JStr []) (JStr ''100'') example_world =
     (Inl (Error ''Must provide destination address''), example_world)
   \<and> quoteRequest example_sender example_ledger example_runtime
       (example_request\<lparr>condition := JNull\<rparr>) example_world =
     (Inl (Error ''Malformed payment request: no condition''), example_world)"
proof -
  have n: "fst (quoteSourceAmount example_ledger (JStr ''g.bob'') JUndefined example_world) \<noteq>
             Inl (Error ''Must provide destination address'')"
     "fst (quoteDestinationAmount example_ledger (JStr []) (JStr ''100'') example_world) \<noteq>
             Inl (Error ''Must provide destination amount'')"
     "fst (quoteRequest example_sender example_ledger example_runtime
       (example_request\<lparr>condition := JNull\<rparr>) example_world) \<noteq> Inl (Error ''Malformed payment request: no address'')"
     "fst (quoteRequest example_sender example_ledger example_runtime
       (example_request\<lparr>condition := JNull\<rparr>) example_world) \<noteq> Inl (Error ''Malformed payment request: no amount'')"
    by (simp_all add: quoteSourceAmount_def quoteDestinationAmount_def quoteRequest_def
        example_request_def Error_def)
  have c: "condition (example_request\<lparr>condition := JNull\<rparr>) = JNull"
    by simp
  from missing_input_rejected_locally [of "JStr ''g.bob''" JUndefined example_ledger example_world
      "JStr ''100''" "example_request\<lparr>condition := JNull\<rparr>" example_sender example_runtime]
    missing_input_rejected_locally [of "JStr []" JUndefined example_ledger example_world
      "JStr ''100''" "example_request\<lparr>condition := JNull\<rparr>" example_sender example_runtime]
    n c
  show ?thesis
    by (auto simp add: prod_eq_iff)
qed

section \<open>The argument of payRequest\<close>

text \<open>
  C9. \<^verbatim>\<open>payRequest\<close> writes to the object it is given: after the call, on every
  path, the heap holds at the argument's reference the object it held before with
  \<open>uuid\<close> set to the transfer id and every other field as it was, and every other
  object is untouched.
\<close>

theorem payRequest_assigns_uuid_to_argument:
  assumes "heap w r = Some p"
  shows "heap (snd (payRequest L S E rt r w)) r = Some (p\<lparr>uuid := Some (transferId L S p)\<rparr>)
       \<and> (\<forall>r'. r' \<noteq> r \<longrightarrow> heap (snd (payRequest L S E rt r w)) r' = heap w r')"
  using assms by (simp add: payRequest_heap)

text \<open>
  On the ledger that refuses the transfer: the first object has its \<open>uuid\<close>, which it
  did not have before, and the second object is as it was.
\<close>

theorem payRequest_assigns_uuid_to_argument_witness:
  "heap (snd (payRequest example_lib example_sender refusing_ledger example_runtime 0 example_world)) 0 =
     Some (example_params\<lparr>uuid := Some ''id-abcdcc:0:3:abc''\<rparr>)
   \<and> heap (snd (payRequest example_lib example_sender refusing_ledger example_runtime 0 example_world)) 1 =
     Some other_params
   \<and> uuid example_params = None"
proof -
  have h: "heap example_world 0 = Some example_params"
    and o: "heap example_world 1 = Some other_params"
    by (simp_all add: example_world_def)
  have t: "transferId example_lib example_sender example_params = ''id-abcdcc:0:3:abc''"
    by (simp add: transferId_def example_lib_def example_sender_def createSender_def
        toString_hex_def hex_digit_def example_params_def)
  have u: "uuid example_params = None"
    by (simp add: example_params_def)
  from payRequest_assigns_uuid_to_argument [OF h, of example_lib example_sender refusing_ledger example_runtime]
    o u
  show ?thesis
    by (simp add: t)
qed

section \<open>The error code of a receiver rejection\<close>

text \<open>
  C10. Whatever the message, a \<^verbatim>\<open>ReceiverRejectionError\<close> has as its
  \<open>ilpErrorCode\<close> the entry \<open>F99_APPLICATION_ERROR\<close> of the catalog's codes.
\<close>

theorem ReceiverRejectionError_ilpErrorCode:
  "ilpErrorCode (ReceiverRejectionError codes msg) = js_prop (JObj codes) ''F99_APPLICATION_ERROR''
   \<and> ilpErrorCode (ReceiverRejectionError codes msg) = ilpErrorCode (ReceiverRejectionError codes msg')"
  by (simp add: ReceiverRejectionError_def)

end
